theory Spec2Isabelle
  imports Complex_Main
begin

section \<open>JavaScript values\<close>

text \<open>
  A JavaScript number is a finite value, one of the two infinities, or NaN. The finite
  values are idealised as reals: rounding is not modelled, and the model has a single
  zero. Comparisons follow the language: every relational comparison and \<^verbatim>\<open>===\<close>
  with a NaN operand is false.
\<close>

datatype number = Fin real | PInf | NInf | NaN

fun num_lt :: "number \<Rightarrow> number \<Rightarrow> bool" where
  "num_lt (Fin a) (Fin b) = (a < b)"
| "num_lt (Fin a) PInf = True"
| "num_lt NInf (Fin b) = True"
| "num_lt NInf PInf = True"
| "num_lt _ _ = False"

definition num_gt :: "number \<Rightarrow> number \<Rightarrow> bool" where
  "num_gt a b = num_lt b a"

definition num_le :: "number \<Rightarrow> number \<Rightarrow> bool" where
  "num_le a b = (a \<noteq> NaN \<and> b \<noteq> NaN \<and> \<not> num_lt b a)"

definition num_ge :: "number \<Rightarrow> number \<Rightarrow> bool" where
  "num_ge a b = (a \<noteq> NaN \<and> b \<noteq> NaN \<and> \<not> num_lt a b)"

definition num_seq :: "number \<Rightarrow> number \<Rightarrow> bool" where
  "num_seq a b = (a \<noteq> NaN \<and> a = b)"

text \<open>Division \<^verbatim>\<open>a / b\<close>; a zero divisor is taken as \<^verbatim>\<open>+0\<close>.\<close>

fun num_div :: "number \<Rightarrow> number \<Rightarrow> number" where
  "num_div NaN _ = NaN"
| "num_div _ NaN = NaN"
| "num_div (Fin a) (Fin b) =
     (if b \<noteq> 0 then Fin (a / b) else if a = 0 then NaN else if 0 < a then PInf else NInf)"
| "num_div (Fin a) PInf = Fin 0"
| "num_div (Fin a) NInf = Fin 0"
| "num_div PInf (Fin b) = (if 0 \<le> b then PInf else NInf)"
| "num_div NInf (Fin b) = (if 0 \<le> b then NInf else PInf)"
| "num_div _ _ = NaN"

text \<open>
  A read that yields \<^verbatim>\<open>undefined\<close> (an index out of range) is \<open>None\<close>; as an
  operand of a comparison \<^verbatim>\<open>undefined\<close> converts to NaN.
\<close>

definition und :: "number option \<Rightarrow> number" where
  "und x = (case x of None \<Rightarrow> NaN | Some n \<Rightarrow> n)"

text \<open>
  Values: the primitives, arrays, and plain objects as lists of own properties in
  enumeration order (keys distinct). The tagged values of the expression runtime are
  such objects: \<^verbatim>\<open>{type: 'Color', value}\<close>, \<^verbatim>\<open>{type: 'Array', arrayType, items}\<close>,
  \<^verbatim>\<open>{type: 'Object', value}\<close>. There are no function values and no prototypes other
  than the built-in ones.
\<close>

datatype js = Undefined | Null | Bool bool | Num number | Str string
  | Arr "js list" | Obj "(string \<times> js) list"

text \<open>
  What is thrown: \<^verbatim>\<open>RuntimeError\<close> of evaluation\_context.js, a plain \<^verbatim>\<open>Error\<close>,
  the language's \<^verbatim>\<open>TypeError\<close> (a property of \<^verbatim>\<open>null\<close> or \<^verbatim>\<open>undefined\<close>, a call
  of something that is not a function), a failed \<^verbatim>\<open>assert\<close>, or any other value.
\<close>

datatype error = RuntimeError string | Error string | TypeError | AssertionError | Thrown js

fun typeof :: "js \<Rightarrow> string" where
  "typeof Undefined = ''undefined''"
| "typeof Null = ''object''"
| "typeof (Bool _) = ''boolean''"
| "typeof (Num _) = ''number''"
| "typeof (Str _) = ''string''"
| "typeof (Arr _) = ''object''"
| "typeof (Obj _) = ''object''"

fun truthy :: "js \<Rightarrow> bool" where
  "truthy Undefined = False"
| "truthy Null = False"
| "truthy (Bool b) = b"
| "truthy (Num n) = (n \<noteq> NaN \<and> n \<noteq> Fin 0)"
| "truthy (Str s) = (s \<noteq> [])"
| "truthy (Arr _) = True"
| "truthy (Obj _) = True"

fun isArray :: "js \<Rightarrow> bool" where
  "isArray (Arr _) = True"
| "isArray _ = False"

text \<open>The canonical decimal string of an array index.\<close>

fun show_nat :: "nat \<Rightarrow> string" where
  "show_nat n = (if n < 10 then [''0123456789'' ! n]
     else show_nat (n div 10) @ [''0123456789'' ! (n mod 10)])"

definition index_of_key :: "string \<Rightarrow> nat \<Rightarrow> nat option" where
  "index_of_key k n = List.find (\<lambda>i. show_nat i = k) [0..<n]"

text \<open>
  \<^verbatim>\<open>x[k]\<close> and \<^verbatim>\<open>x.k\<close> for \<open>x\<close> other than \<^verbatim>\<open>null\<close> and \<^verbatim>\<open>undefined\<close>, at a
  property name that is either an own property or not defined by the built-in
  prototypes (all names read below are of this kind). Strings are sequences of
  one-unit characters.
\<close>

fun js_prop :: "js \<Rightarrow> string \<Rightarrow> js" where
  "js_prop (Obj kvs) k = (case map_of kvs k of Some v \<Rightarrow> v | None \<Rightarrow> Undefined)"
| "js_prop (Arr xs) k =
     (if k = ''length'' then Num (Fin (real (length xs)))
      else case index_of_key k (length xs) of Some i \<Rightarrow> xs ! i | None \<Rightarrow> Undefined)"
| "js_prop (Str s) k =
     (if k = ''length'' then Num (Fin (real (length s)))
      else case index_of_key k (length s) of Some i \<Rightarrow> Str [s ! i] | None \<Rightarrow> Undefined)"
| "js_prop _ k = Undefined"

definition get_prop :: "js \<Rightarrow> string \<Rightarrow> error + js" where
  "get_prop x k = (if x = Undefined \<or> x = Null then Inl TypeError else Inr (js_prop x k))"

text \<open>
  \<^verbatim>\<open>x.hasOwnProperty(k)\<close>: an own data property named \<^verbatim>\<open>hasOwnProperty\<close> shadows the
  inherited method and cannot be called.
\<close>

fun hasOwnProperty :: "js \<Rightarrow> string \<Rightarrow> error + bool" where
  "hasOwnProperty Undefined k = Inl TypeError"
| "hasOwnProperty Null k = Inl TypeError"
| "hasOwnProperty (Obj kvs) k =
     (if ''hasOwnProperty'' \<in> set (map fst kvs) then Inl TypeError
      else Inr (k \<in> set (map fst kvs)))"
| "hasOwnProperty (Arr xs) k = Inr (k = ''length'' \<or> index_of_key k (length xs) \<noteq> None)"
| "hasOwnProperty (Str s) k = Inr (k = ''length'' \<or> index_of_key k (length s) \<noteq> None)"
| "hasOwnProperty _ k = Inr False"

text \<open>\<^verbatim>\<open>Object.keys(x)\<close>: the enumerable own property names.\<close>

fun Object_keys :: "js \<Rightarrow> error + string list" where
  "Object_keys Undefined = Inl TypeError"
| "Object_keys Null = Inl TypeError"
| "Object_keys (Obj kvs) = Inr (map fst kvs)"
| "Object_keys (Arr xs) = Inr (map show_nat [0..<length xs])"
| "Object_keys (Str s) = Inr (map show_nat [0..<length s])"
| "Object_keys _ = Inr []"

text \<open>\<^verbatim>\<open>xs.join(sep)\<close> on an array of strings.\<close>

fun join :: "string \<Rightarrow> string list \<Rightarrow> string" where
  "join sep [] = []"
| "join sep [x] = x"
| "join sep (x # y # ys) = x @ sep @ join sep (y # ys)"

text \<open>\<^verbatim>\<open>name || dflt\<close> for an optional string argument.\<close>

definition or_else :: "string option \<Rightarrow> string \<Rightarrow> string" where
  "or_else name dflt = (case name of Some n \<Rightarrow> if n \<noteq> [] then n else dflt | None \<Rightarrow> dflt)"

definition apostrophe :: string where
  "apostrophe = [CHR 0x27]"

subsection \<open>The regular expression of the Array assertion\<close>

datatype regex = Lit string | Seq regex regex | Alt regex regex | Opt regex

text \<open>The remainders of the input after each way of matching a prefix of it.\<close>

fun rmatch :: "regex \<Rightarrow> string \<Rightarrow> string list" where
  "rmatch (Lit l) s = (if take (length l) s = l then [drop (length l) s] else [])"
| "rmatch (Seq a b) s = concat (map (rmatch b) (rmatch a s))"
| "rmatch (Alt a b) s = rmatch a s @ rmatch b s"
| "rmatch (Opt a) s = rmatch a s @ [s]"

text \<open>\<^verbatim>\<open>re.test(s)\<close> for an unanchored expression: a match may start anywhere.\<close>

definition regex_test :: "regex \<Rightarrow> string \<Rightarrow> bool" where
  "regex_test r s = list_ex (\<lambda>i. rmatch r (drop i s) \<noteq> []) [0..<Suc (length s)]"

text \<open>\<^verbatim>\<open>/Array(<(string|number|boolean)>)?/\<close>\<close>

definition array_regex :: regex where
  "array_regex = Seq (Lit ''Array'')
     (Opt (Seq (Lit ''<'') (Seq (Alt (Lit ''string'') (Alt (Lit ''number'') (Lit ''boolean'')))
       (Lit ''>''))))"

section \<open>External collaborators of the evaluation context\<close>

text \<open>
  Code that evaluation\_context.js calls and that lies outside it is a parameter:
  \<^item> \<open>hostToString\<close>: the language's string coercion of a value that is not a string
    (used when a type tag is not a string);
  \<^item> \<open>JSON_stringify\<close>: \<^verbatim>\<open>JSON.stringify\<close>;
  \<^item> \<open>inferArrayType\<close>: \<^verbatim>\<open>ArrayLiteral.inferArrayType(items).name\<close>;
  \<^item> \<open>interpolationFactor\<close>: \<^verbatim>\<open>./interpolation_factor\<close>, whose stop arguments may be
    \<^verbatim>\<open>undefined\<close>;
  \<^item> \<open>interpolate\<close>: the function found at \<^verbatim>\<open>interpolate[k]\<close> of
    \<^verbatim>\<open>../util/interpolate\<close>, if there is one.
\<close>

record ext =
  hostToString :: "js \<Rightarrow> error + string"
  JSON_stringify :: "js \<Rightarrow> string"
  inferArrayType :: "js \<Rightarrow> js"
  interpolationFactor :: "number \<Rightarrow> number \<Rightarrow> number option \<Rightarrow> number option \<Rightarrow> number"
  interpolate :: "string \<Rightarrow> (js \<Rightarrow> js \<Rightarrow> number \<Rightarrow> error + js) option"

text \<open>The coercion of a template literal's hole and of the argument of \<^verbatim>\<open>test\<close>.\<close>

definition ToString :: "ext \<Rightarrow> js \<Rightarrow> error + string" where
  "ToString x v = (case v of Str s \<Rightarrow> Inr s | _ \<Rightarrow> hostToString x v)"

section \<open>The evaluation context (evaluation\_context.js)\<close>

text \<open>\<^verbatim>\<open>ensure(condition, message)\<close> throws a \<^verbatim>\<open>RuntimeError\<close> on a falsy condition.\<close>

definition ensure :: "js \<Rightarrow> string \<Rightarrow> error + bool" where
  "ensure condition message =
     (if \<not> truthy condition then Inl (RuntimeError message) else Inr True)"

text \<open>ASCII upper case, which is all that \<^verbatim>\<open>typeof\<close> strings need.\<close>

definition toUpperCase :: "char \<Rightarrow> char" where
  "toUpperCase c = (case map_of (zip ''abcdefghijklmnopqrstuvwxyz'' ''ABCDEFGHIJKLMNOPQRSTUVWXYZ'') c
     of Some u \<Rightarrow> u | None \<Rightarrow> c)"

definition titlecase :: "string \<Rightarrow> string" where
  "titlecase s = map toUpperCase (take 1 s) @ drop 1 s"

definition typeOf :: "js \<Rightarrow> js" where
  "typeOf x =
     (if x = Null then Str ''Null''
      else if typeof x = ''object'' then
        (if js_prop x ''type'' = Str ''Array'' then js_prop x ''arrayType''
         else js_prop x ''type'')
      else Str (titlecase (typeof x)))"

text \<open>The type assertion \<^verbatim>\<open>as(value, expectedType, name)\<close>; a missing name is \<open>None\<close>.\<close>

definition as :: "ext \<Rightarrow> js \<Rightarrow> string \<Rightarrow> string option \<Rightarrow> error + js" where
  "as x v expectedType name =
     (let type = typeOf v in
      if expectedType = ''Array'' then
        (case ToString x type of
           Inl e \<Rightarrow> Inl e
         | Inr shown \<Rightarrow>
             (case ensure (Bool (regex_test array_regex shown))
                 (''Expected '' @ or_else name ''value'' @ '' to be an Array, but found ''
                   @ shown @ '' instead.'') of
                Inl e \<Rightarrow> Inl e
              | Inr _ \<Rightarrow> Inr v))
      else
        (case ToString x type of
           Inl e \<Rightarrow> Inl e
         | Inr shown \<Rightarrow>
             (case ensure (Bool (type = Str expectedType))
                 (''Expected '' @ or_else name ''value'' @ '' to be of type '' @ expectedType
                   @ '', but found '' @ shown @ '' instead.'') of
                Inl e \<Rightarrow> Inl e
              | Inr _ \<Rightarrow> Inr v)))"

definition has :: "ext \<Rightarrow> js \<Rightarrow> string \<Rightarrow> string option \<Rightarrow> error + bool" where
  "has x obj key name =
     (case ensure obj (''Cannot get property '' @ key @ '' from null object''
            @ (case name of Some n \<Rightarrow> if n \<noteq> [] then '' '' @ n else [] | None \<Rightarrow> [])
            @ ''.'') of
        Inl e \<Rightarrow> Inl e
      | Inr _ \<Rightarrow>
          (case as x obj ''Object'' name of
             Inl e \<Rightarrow> Inl e
           | Inr v \<Rightarrow>
               (case get_prop v ''value'' of
                  Inl e \<Rightarrow> Inl e
                | Inr m \<Rightarrow> hasOwnProperty m key)))"

definition array :: "ext \<Rightarrow> js \<Rightarrow> js \<Rightarrow> js" where
  "array x arrayType items =
     (let arrayType = (if \<not> truthy arrayType then inferArrayType x items else arrayType)
      in Obj [(''type'', Str ''Array''), (''arrayType'', arrayType), (''items'', items)])"

definition object :: "js \<Rightarrow> js" where
  "object v = Obj [(''type'', Str ''Object''), (''value'', v)]"

text \<open>
  \<^verbatim>\<open>get(obj, key, name)\<close>. The arguments of \<^verbatim>\<open>ensure\<close> are evaluated first:
  \<^verbatim>\<open>this.has(obj, key, name)\<close>, then the message, whose list of keys is
  \<^verbatim>\<open>Object.keys(obj)\<close> and is built only when \<^verbatim>\<open>name\<close> is falsy.
\<close>

definition get :: "ext \<Rightarrow> js \<Rightarrow> string \<Rightarrow> string option \<Rightarrow> error + js" where
  "get x obj key name =
     (case has x obj key name of
        Inl e \<Rightarrow> Inl e
      | Inr found \<Rightarrow>
          (case (if or_else name [] \<noteq> [] then Inr (or_else name [])
                 else case Object_keys obj of
                   Inl e \<Rightarrow> Inl e
                 | Inr keys \<Rightarrow> Inr (''object with keys: ['' @ join '', '' keys @ '']'')) of
             Inl e \<Rightarrow> Inl e
           | Inr place \<Rightarrow>
               (case ensure (Bool found)
                   (''Property '' @ apostrophe @ key @ apostrophe @ '' not found in '' @ place) of
                  Inl e \<Rightarrow> Inl e
                | Inr _ \<Rightarrow>
                    (case get_prop obj ''value'' of
                       Inl e \<Rightarrow> Inl e
                     | Inr m \<Rightarrow>
                         (case get_prop m key of
                            Inl e \<Rightarrow> Inl e
                          | Inr val \<Rightarrow>
                              if isArray val then Inr (array x Null val)
                              else if truthy val \<and> typeof val = ''object'' then Inr (object val)
                              else Inr val)))))"

text \<open>
  A thunk is a zero-argument function: called, it returns a value or throws, and may
  change the state \<open>'s\<close> of the world it closes over. A thunk that is called always
  comes back.
\<close>

type_synonym 's thunk = "'s \<Rightarrow> (error + js) \<times> 's"

text \<open>
  \<^verbatim>\<open>coalesce(...thunks)\<close>: each round of the loop returns \<^verbatim>\<open>null\<close> on an empty queue,
  else shifts the first thunk off and calls it; a result other than \<^verbatim>\<open>null\<close> is
  returned, and an exception is rethrown only when the queue is empty by then.
\<close>

fun coalesce :: "'s thunk list \<Rightarrow> 's thunk" where
  "coalesce [] s = (Inr Null, s)"
| "coalesce (t # thunks) s =
     (case t s of
        (Inr result, s') \<Rightarrow> if result \<noteq> Null then (Inr result, s') else coalesce thunks s'
      | (Inl e, s') \<Rightarrow> if thunks = [] then (Inl e, s') else coalesce thunks s')"

definition rgba :: "number \<Rightarrow> number \<Rightarrow> number \<Rightarrow> number option \<Rightarrow> js" where
  "rgba r g b a =
     Obj [(''type'', Str ''Color''),
          (''value'', Arr [Num (num_div r (Fin 255)), Num (num_div g (Fin 255)),
             Num (num_div b (Fin 255)), (case a of None \<Rightarrow> Num (Fin 1) | Some a' \<Rightarrow> Num a')])]"

definition unwrap :: "ext \<Rightarrow> js \<Rightarrow> error + js" where
  "unwrap x maybeWrapped =
     (if \<not> truthy maybeWrapped \<or> typeof maybeWrapped \<noteq> ''object'' then Inr maybeWrapped
      else if js_prop maybeWrapped ''type'' = Str ''Color''
           \<or> js_prop maybeWrapped ''type'' = Str ''Object''
        then Inr (js_prop maybeWrapped ''value'')
      else if js_prop maybeWrapped ''type'' = Str ''Array''
        then Inr (js_prop maybeWrapped ''items'')
      else Inl (Error (''Unrecognized value: '' @ JSON_stringify x maybeWrapped)))"

subsection \<open>Curve evaluation\<close>

text \<open>\<^verbatim>\<open>stops[i]\<close>: \<^verbatim>\<open>undefined\<close> outside the array.\<close>

definition stop_at :: "number list \<Rightarrow> int \<Rightarrow> number option" where
  "stop_at stops i = (if 0 \<le> i \<and> i < int (length stops) then Some (stops ! nat i) else None)"

text \<open>
  The loop of \<^verbatim>\<open>findStopLessThanOrEqualTo\<close>, on its variables \<^verbatim>\<open>lowerIndex\<close>,
  \<^verbatim>\<open>upperIndex\<close> and \<^verbatim>\<open>currentIndex\<close>. A round in which no branch is taken changes
  nothing, and the loop never ends: the result is then \<open>None\<close>.
\<close>

partial_function (option) findStop_loop ::
  "number list \<Rightarrow> number \<Rightarrow> int \<Rightarrow> int \<Rightarrow> int \<Rightarrow> int option" where
  "findStop_loop stops input lowerIndex upperIndex currentIndex =
     (if lowerIndex \<le> upperIndex then
        (let currentIndex' = (lowerIndex + upperIndex) div 2;
             currentValue = und (stop_at stops currentIndex');
             upperValue = und (stop_at stops (currentIndex' + 1))
         in if num_seq input currentValue
               \<or> num_gt input currentValue \<and> num_lt input upperValue
            then Some currentIndex'
            else if num_lt currentValue input
            then findStop_loop stops input (currentIndex' + 1) upperIndex currentIndex'
            else if num_gt currentValue input
            then findStop_loop stops input lowerIndex (currentIndex' - 1) currentIndex'
            else findStop_loop stops input lowerIndex upperIndex currentIndex')
      else Some (max (currentIndex - 1) 0))"

declare findStop_loop.simps [code]

definition findStopLessThanOrEqualTo :: "number list \<Rightarrow> number \<Rightarrow> int option" where
  "findStopLessThanOrEqualTo stops input =
     (let n = int (length stops) in findStop_loop stops input 0 (n - 1) 0)"

text \<open>
  Modelled from the spec: the type \<^verbatim>\<open>InterpolationType\<close> of
  \<^verbatim>\<open>./definitions/curve\<close>, an interpolation kind \<^verbatim>\<open>Step\<close>, \<^verbatim>\<open>Linear\<close> or
  \<^verbatim>\<open>Exponential(base)\<close>; \<^verbatim>\<open>interpolation.name\<close> is \<^verbatim>\<open>'step'\<close>, \<^verbatim>\<open>'linear'\<close>
  or \<^verbatim>\<open>'exponential'\<close>.
\<close>

datatype interpolation = Step | Linear | Exponential number

text \<open>\<^verbatim>\<open>stopOutputs[i]()\<close>: calling \<^verbatim>\<open>undefined\<close> is a \<^verbatim>\<open>TypeError\<close>.\<close>

definition call_stop :: "'s thunk list \<Rightarrow> int \<Rightarrow> 's thunk" where
  "call_stop stopOutputs i s =
     (if 0 \<le> i \<and> i < int (length stopOutputs) then (stopOutputs ! nat i) s
      else (Inl TypeError, s))"

text \<open>
  The end of \<^verbatim>\<open>evaluateCurve\<close>, from \<^verbatim>\<open>if (resultType === 'color')\<close> on: the blend
  of the two bracketing outputs at the progress \<open>t\<close>.
\<close>

definition evaluateCurve_blend :: "ext \<Rightarrow> string \<Rightarrow> js \<Rightarrow> js \<Rightarrow> number \<Rightarrow> error + js" where
  "evaluateCurve_blend x resultType outputLower outputUpper t =
     (if resultType = ''color'' then
        (case get_prop outputLower ''value'' of
           Inl e \<Rightarrow> Inl e
         | Inr lowerValue \<Rightarrow>
        (case get_prop outputUpper ''value'' of
           Inl e \<Rightarrow> Inl e
         | Inr upperValue \<Rightarrow>
        (case interpolate x ''color'' of
           None \<Rightarrow> Inl TypeError
         | Some f \<Rightarrow>
        (case f lowerValue upperValue t of
           Inl e \<Rightarrow> Inl e
         | Inr v \<Rightarrow> Inr (Obj [(''type'', Str ''Color''), (''value'', v)])))))
      else if resultType = ''array'' then
        (case get_prop outputLower ''type'' of
           Inl e \<Rightarrow> Inl e
         | Inr lowerType \<Rightarrow>
        (case get_prop outputLower ''items'' of
           Inl e \<Rightarrow> Inl e
         | Inr lowerItems \<Rightarrow>
        (case get_prop outputUpper ''items'' of
           Inl e \<Rightarrow> Inl e
         | Inr upperItems \<Rightarrow>
        (case interpolate x ''array'' of
           None \<Rightarrow> Inl TypeError
         | Some f \<Rightarrow>
        (case f lowerItems upperItems t of
           Inl e \<Rightarrow> Inl e
         | Inr items \<Rightarrow> Inr (array x lowerType items))))))
      else
        (case interpolate x resultType of
           None \<Rightarrow> Inl TypeError
         | Some f \<Rightarrow> f outputLower outputUpper t))"

text \<open>
  \<^verbatim>\<open>evaluateCurve(input, stopInputs, stopOutputs, interpolation, resultType)\<close>, with
  \<^verbatim>\<open>input: number\<close> and \<^verbatim>\<open>stopInputs: Array<number>\<close> as annotated. The result is
  \<open>None\<close> when the search for the stop never ends.
\<close>

definition evaluateCurve ::
  "ext \<Rightarrow> number \<Rightarrow> number list \<Rightarrow> 's thunk list \<Rightarrow> interpolation \<Rightarrow> string
     \<Rightarrow> 's \<Rightarrow> ((error + js) \<times> 's) option" where
  "evaluateCurve x input stopInputs stopOutputs interpolation resultType s =
     (case as x (Num input) ''Number'' (Some ''curve input'') of
        Inl e \<Rightarrow> Some (Inl e, s)
      | Inr _ \<Rightarrow>
          (let stopCount = int (length stopInputs) in
           if length stopInputs = 1 then Some (call_stop stopOutputs 0 s)
           else if num_le input (und (stop_at stopInputs 0)) then Some (call_stop stopOutputs 0 s)
           else if num_ge input (und (stop_at stopInputs (stopCount - 1)))
             then Some (call_stop stopOutputs (stopCount - 1) s)
           else
             (case findStopLessThanOrEqualTo stopInputs input of
                None \<Rightarrow> None
              | Some index \<Rightarrow>
                  if interpolation = Step then Some (call_stop stopOutputs index s)
                  else
                    (let base = (case interpolation of Exponential b \<Rightarrow> b | _ \<Rightarrow> Fin 1);
                         t = interpolationFactor x input base (stop_at stopInputs index)
                               (stop_at stopInputs (index + 1))
                     in case call_stop stopOutputs index s of
                          (Inl e, s1) \<Rightarrow> Some (Inl e, s1)
                        | (Inr outputLower, s1) \<Rightarrow>
                            (case call_stop stopOutputs (index + 1) s1 of
                               (Inl e, s2) \<Rightarrow> Some (Inl e, s2)
                             | (Inr outputUpper, s2) \<Rightarrow>
                                 Some (evaluateCurve_blend x resultType outputLower outputUpper t,
                                       s2))))))"

section \<open>The function builder (index.js)\<close>

text \<open>
  Modelled from the spec: the type constants of \<^verbatim>\<open>./types\<close> that index.js passes to
  the compiler: \<^verbatim>\<open>ColorType\<close>, \<^verbatim>\<open>StringType\<close>, \<^verbatim>\<open>NumberType\<close>, the generic
  \<^verbatim>\<open>ValueType\<close>, and \<^verbatim>\<open>array(itemType, length)\<close>.
\<close>

datatype etype = ColorType | StringType | NumberType | ValueType | ArrayType etype js

text \<open>
  Modelled from the spec: a node of the compiled expression, of which index.js reads
  \<^verbatim>\<open>name\<close>, \<^verbatim>\<open>args\<close>, \<^verbatim>\<open>value\<close> and the result of \<^verbatim>\<open>serialize()\<close>.
\<close>

datatype ast = Ast (ast_name: string) (ast_args: "ast list") (ast_value: js) (ast_serialize: js)

text \<open>
  Modelled from the spec: the compiler returns
  \<^verbatim>\<open>{result: 'success', function, isFeatureConstant, isZoomConstant, expression}\<close> or
  \<^verbatim>\<open>{result: 'error', errors: [{key, error}]}\<close>; the compiled evaluator takes the two
  context objects and returns a value or throws.
\<close>

datatype compilation =
    Success "js \<Rightarrow> js \<Rightarrow> error + js" bool bool ast
  | Failure "(string \<times> string) list"

text \<open>
  The collaborators of index.js: \<^verbatim>\<open>convert.value\<close>, \<^verbatim>\<open>convert.function\<close> (each may
  throw), \<^verbatim>\<open>compileExpression\<close>, and \<^verbatim>\<open>JSON.stringify(expr, null, 2)\<close>.
\<close>

record deps =
  convert_value :: "js \<Rightarrow> js \<Rightarrow> error + js"
  convert_function :: "js \<Rightarrow> js \<Rightarrow> error + js"
  compileExpression :: "js \<Rightarrow> etype option \<Rightarrow> compilation"
  stringify_indented :: "js \<Rightarrow> string"

text \<open>
  The function that \<^verbatim>\<open>createFunction\<close> returns, with the properties set on it;
  a property that is not set is \<open>None\<close>.
\<close>

record compiled_function =
  call :: "js \<Rightarrow> js \<Rightarrow> error + js"
  isFeatureConstant :: bool
  isZoomConstant :: bool
  zoomStops :: "js list option"
  interpolationT :: "(js \<Rightarrow> js \<Rightarrow> error + js) option"

definition isFunctionDefinition :: "js \<Rightarrow> error + js" where
  "isFunctionDefinition v =
     (if typeof v = ''object'' then
        (case get_prop v ''expression'' of
           Inl e \<Rightarrow> Inl e
         | Inr expression \<Rightarrow>
             if truthy expression then Inr expression
             else if truthy (js_prop v ''stops'') then Inr (js_prop v ''stops'')
             else Inr (Bool (js_prop v ''type'' = Str ''identity'')))
      else Inr (Bool False))"

text \<open>
  The table \<^verbatim>\<open>types\<close> of \<^verbatim>\<open>getExpectedType\<close>, read at a type name of the style
  specification (a string) or at \<^verbatim>\<open>undefined\<close>.
\<close>

definition types :: "js \<Rightarrow> etype option" where
  "types k = (case k of
       Str s \<Rightarrow> map_of [(''color'', ColorType), (''string'', StringType),
                  (''number'', NumberType), (''enum'', StringType), (''image'', StringType)] s
     | _ \<Rightarrow> None)"

definition getExpectedType :: "js \<Rightarrow> error + etype option" where
  "getExpectedType spec =
     (case get_prop spec ''type'' of
        Inl e \<Rightarrow> Inl e
      | Inr t \<Rightarrow>
          if t = Str ''array'' then
            Inr (Some (ArrayType
              (case types (js_prop spec ''value'') of Some item \<Rightarrow> item | None \<Rightarrow> ValueType)
              (js_prop spec ''length'')))
          else Inr (types t))"

text \<open>The first statement of \<^verbatim>\<open>createFunction\<close>: the expression \<^verbatim>\<open>expr\<close>.\<close>

definition createFunction_expr :: "deps \<Rightarrow> js \<Rightarrow> js \<Rightarrow> error + js" where
  "createFunction_expr d parameters propertySpec =
     (case isFunctionDefinition parameters of
        Inl e \<Rightarrow> Inl e
      | Inr isDefinition \<Rightarrow>
          if \<not> truthy isDefinition then convert_value d parameters propertySpec
          else if truthy (js_prop parameters ''expression'') then
            (case get_prop propertySpec ''default'' of
               Inl e \<Rightarrow> Inl e
             | Inr dflt \<Rightarrow>
                 if typeof dflt \<noteq> ''undefined'' then
                   (case convert_value d dflt Undefined of
                      Inl e \<Rightarrow> Inl e
                    | Inr specDefault \<Rightarrow>
                        Inr (Arr [Str ''coalesce'', js_prop parameters ''expression'', specDefault]))
                 else Inr (js_prop parameters ''expression''))
          else convert_function d parameters propertySpec)"

text \<open>The elements at the positions 0, 2, 4, ...\<close>

fun every_other :: "'a list \<Rightarrow> 'a list" where
  "every_other [] = []"
| "every_other [x] = [x]"
| "every_other (x # y # xs) = x # every_other xs"

text \<open>\<^verbatim>\<open>['curve', interpolation, ['zoom'], stop0, 0, stop1, 1, ...]\<close>\<close>

definition interpExpression :: "js \<Rightarrow> js list \<Rightarrow> js" where
  "interpExpression interpolation stops =
     Arr ([Str ''curve'', interpolation, Arr [Str ''zoom'']]
       @ concat (map (\<lambda>(z, i). [z, Num (Fin (real i))]) (zip stops [0..<length stops])))"

text \<open>
  The branch \<^verbatim>\<open>if (!f.isZoomConstant)\<close>: the metadata of the curve, set on \<open>f\<close>.
\<close>

definition curve_metadata :: "deps \<Rightarrow> ast \<Rightarrow> compiled_function \<Rightarrow> error + compiled_function" where
  "curve_metadata d expression f =
     (case (if ast_name expression \<noteq> ''curve''
            then (case ast_args expression of [] \<Rightarrow> None | a # _ \<Rightarrow> Some a)
            else Some expression) of
        None \<Rightarrow> Inl TypeError
      | Some curve \<Rightarrow>
          (case get_prop (ast_serialize curve) ''1'' of
             Inl e \<Rightarrow> Inl e
           | Inr interpolation \<Rightarrow>
               (let stops = map ast_value (every_other (drop 2 (ast_args curve)));
                    f = f\<lparr>zoomStops := Some stops\<rparr>
                in if \<not> isFeatureConstant f then
                     (case compileExpression d
                         (Arr [Str ''coalesce'', interpExpression interpolation stops, Num (Fin 0)])
                         (Some NumberType) of
                        Failure _ \<Rightarrow> Inl AssertionError
                      | Success g _ _ _ \<Rightarrow> Inr (f\<lparr>interpolationT := Some g\<rparr>))
                   else Inr f)))"

text \<open>
  \<^verbatim>\<open>createFunction(parameters, propertySpec)\<close>: what it returns or throws, and the
  lines it writes to the console.
\<close>

definition createFunction ::
  "deps \<Rightarrow> js \<Rightarrow> js \<Rightarrow> (error + compiled_function) \<times> string list" where
  "createFunction d parameters propertySpec =
     (case createFunction_expr d parameters propertySpec of
        Inl e \<Rightarrow> (Inl e, [])
      | Inr expr \<Rightarrow>
          (case getExpectedType propertySpec of
             Inl e \<Rightarrow> (Inl e, [])
           | Inr expectedType \<Rightarrow>
               (case compileExpression d expr expectedType of
                  Success compiled featureConstant zoomConstant expression \<Rightarrow>
                    (let f = \<lparr>call = (\<lambda>zoom properties.
                                  case compiled (Obj [(''zoom'', zoom)])
                                         (Obj [(''properties'', properties)]) of
                                    Inl e \<Rightarrow> Inl e
                                  | Inr val \<Rightarrow> Inr (if val = Null then Undefined else val)),
                               isFeatureConstant = featureConstant,
                               isZoomConstant = zoomConstant,
                               zoomStops = None, interpolationT = None\<rparr>
                     in if \<not> isZoomConstant f then (curve_metadata d expression f, [])
                        else (Inr f, []))
                | Failure errors \<Rightarrow>
                    (Inl (Error (join '', '' (map (\<lambda>(key, err). key @ '': '' @ err) errors))),
                     stringify_indented d expr
                       # map (\<lambda>(key, err). key @ '': '' @ err) errors))))"

section \<open>Notions used to state the properties\<close>

text \<open>\<^verbatim>\<open>isFinite(n)\<close>\<close>

fun is_finite :: "number \<Rightarrow> bool" where
  "is_finite (Fin _) = True"
| "is_finite _ = False"

text \<open>
  Each thunk of the list, called in order from the state \<open>s\<close>, throws or returns
  \<^verbatim>\<open>null\<close>; and the state that these calls leave.
\<close>

fun passed_over :: "'s thunk list \<Rightarrow> 's \<Rightarrow> bool" where
  "passed_over [] s = True"
| "passed_over (t # ts) s =
     (case t s of
        (Inr v, s') \<Rightarrow> v = Null \<and> passed_over ts s'
      | (Inl e, s') \<Rightarrow> passed_over ts s')"

fun state_after :: "'s thunk list \<Rightarrow> 's \<Rightarrow> 's" where
  "state_after [] s = s"
| "state_after (t # ts) s = state_after ts (snd (t s))"

text \<open>\<^verbatim>\<open>`${err.key}: ${err.error}`\<close>\<close>

definition render_error :: "string \<times> string \<Rightarrow> string" where
  "render_error p = fst p @ '': '' @ snd p"

subsection \<open>Concrete inputs\<close>

text \<open>Thunks whose state counts the calls made so far.\<close>

definition failingThunk :: "nat thunk" where
  "failingThunk s = (Inl (RuntimeError ''failing''), Suc s)"

definition constantThunk :: "js \<Rightarrow> nat thunk" where
  "constantThunk v s = (Inr v, Suc s)"

text \<open>
  Modelled from the spec: \<^verbatim>\<open>interpolationFactor(input, base, lowerInput, upperInput)\<close>
  of \<^verbatim>\<open>./interpolation_factor\<close>, on finite arguments:
  \<open>(input - lowerInput) / (upperInput - lowerInput)\<close> when the base is 1, else
  \<open>(b^(input - lowerInput) - 1) / (b^(upperInput - lowerInput) - 1)\<close>.
\<close>

definition spec_interpolationFactor ::
  "number \<Rightarrow> number \<Rightarrow> number option \<Rightarrow> number option \<Rightarrow> number" where
  "spec_interpolationFactor input base lowerInput upperInput =
     (case (input, base, und lowerInput, und upperInput) of
        (Fin i, Fin b, Fin lo, Fin hi) \<Rightarrow>
          if b = 1 then num_div (Fin (i - lo)) (Fin (hi - lo))
          else num_div (Fin (b powr (i - lo) - 1)) (Fin (b powr (hi - lo) - 1))
      | _ \<Rightarrow> NaN)"

text \<open>
  Modelled from the spec: the interpolators of \<^verbatim>\<open>../util/interpolate\<close>: the linear
  blend of two finite numbers at \<open>t\<close>, and, for \<^verbatim>\<open>color\<close> and \<^verbatim>\<open>array\<close>, the
  component-wise blend of two item sequences of equal lengths.
\<close>

definition spec_blend :: "number \<Rightarrow> js \<Rightarrow> js \<Rightarrow> js" where
  "spec_blend t a b =
     (case (a, b, t) of
        (Num (Fin p), Num (Fin q), Fin r) \<Rightarrow> Num (Fin (p * (1 - r) + q * r))
      | _ \<Rightarrow> Num NaN)"

definition spec_blend_items :: "js \<Rightarrow> js \<Rightarrow> number \<Rightarrow> error + js" where
  "spec_blend_items a b t =
     (case (a, b) of
        (Arr xs, Arr ys) \<Rightarrow>
          if length xs = length ys
          then Inr (Arr (map (\<lambda>(p, q). spec_blend t p q) (zip xs ys)))
          else Inl (Error ''length mismatch'')
      | _ \<Rightarrow> Inl TypeError)"

definition spec_interpolate :: "string \<Rightarrow> (js \<Rightarrow> js \<Rightarrow> number \<Rightarrow> error + js) option" where
  "spec_interpolate k =
     (if k = ''color'' \<or> k = ''array'' then Some spec_blend_items
      else if k = ''number'' then Some (\<lambda>a b t. Inr (spec_blend t a b))
      else None)"

text \<open>
  Collaborators to run the evaluation context with: interpolation as above, an
  inference that always answers the generic \<^verbatim>\<open>Array\<close>, and fixed renderings.
\<close>

definition sample_ext :: ext where
  "sample_ext = \<lparr>hostToString = (\<lambda>v. Inr ''[object Object]''),
     JSON_stringify = (\<lambda>v. ''{}''),
     inferArrayType = (\<lambda>items. Str ''Array''),
     interpolationFactor = spec_interpolationFactor,
     interpolate = spec_interpolate\<rparr>"

text \<open>Collaborators of index.js whose compiler rejects every expression with two errors.\<close>

definition rejecting_deps :: deps where
  "rejecting_deps = \<lparr>convert_value = (\<lambda>v spec. Inr (Arr [Str ''literal'', v])),
     convert_function = (\<lambda>v spec. Inr (Arr [Str ''curve''])),
     compileExpression = (\<lambda>e t. Failure [('''', ''Expected number but found string.''),
                                           (''[1]'', ''Unknown expression.'')]),
     stringify_indented = (\<lambda>e. ''[]'')\<rparr>"

section \<open>Numbers: the order of the values other than NaN\<close>

lemma num_lt_trans: "num_lt a b \<Longrightarrow> num_lt b c \<Longrightarrow> num_lt a c"
  by (cases a; cases b; cases c) auto

lemma num_lt_irrefl: "\<not> num_lt a a"
  by (cases a) auto

lemma num_lt_asym: "num_lt a b \<Longrightarrow> \<not> num_lt b a"
  by (cases a; cases b) auto

lemma num_lt_not_NaN: "num_lt a b \<Longrightarrow> a \<noteq> NaN \<and> b \<noteq> NaN"
  by (cases a; cases b) auto

lemma num_trichotomy: "a \<noteq> NaN \<Longrightarrow> b \<noteq> NaN \<Longrightarrow> num_lt a b \<or> a = b \<or> num_lt b a"
  by (cases a; cases b) auto

lemma num_le_antisym_cycle:
  "num_le a b \<Longrightarrow> num_le b c \<Longrightarrow> num_le c a \<Longrightarrow> a = b \<and> a \<noteq> NaN"
  by (cases a; cases b; cases c) (auto simp: num_le_def)

lemma sorted_wrt_num_lt_nth:
  "sorted_wrt num_lt xs \<Longrightarrow> i < j \<Longrightarrow> j < length xs \<Longrightarrow> num_lt (xs ! i) (xs ! j)"
  by (simp add: sorted_wrt_iff_nth_less)

section \<open>The type assertion\<close>

lemma typeOf_Num: "typeOf (Num n) = Str ''Number''"
  by (simp add: typeOf_def titlecase_def toUpperCase_def)

lemma as_Number: "as x (Num n) ''Number'' name = Inr (Num n)"
  by (simp add: as_def typeOf_Num ToString_def ensure_def)

lemma regex_test_Array_prefix: "regex_test array_regex (''Array'' @ rest)"
  unfolding regex_test_def list_ex_iff
  by (rule bexI[of _ 0]) (simp_all add: array_regex_def)

lemma not_regex_test_Number: "\<not> regex_test array_regex ''Number''"
  by (simp add: regex_test_def array_regex_def)

text \<open>
  C7. \<^verbatim>\<open>as(v, 'Array')\<close> returns \<open>v\<close> when \<open>v\<close> is an Array value, whatever its
  element type: the generic \<^verbatim>\<open>Array\<close>, \<^verbatim>\<open>Array<string>\<close>, \<^verbatim>\<open>Array<number>\<close> or
  \<^verbatim>\<open>Array<boolean>\<close> (and any other tag that starts with \<^verbatim>\<open>Array\<close>). On a number
  it throws a \<^verbatim>\<open>RuntimeError\<close> whose message names the actual type, \<^verbatim>\<open>Number\<close>.
\<close>

theorem as_Array_accepts_arrays_rejects_number:
  "(\<forall>elementType \<in> set [''Array'', ''Array<string>'', ''Array<number>'', ''Array<boolean>''].
      as x (array x (Str elementType) items) ''Array'' name
        = Inr (array x (Str elementType) items))
   \<and> (\<forall>rest. as x (array x (Str (''Array'' @ rest)) items) ''Array'' name
        = Inr (array x (Str (''Array'' @ rest)) items))
   \<and> as x (Num n) ''Array'' name
       = Inl (RuntimeError (''Expected '' @ or_else name ''value''
                @ '' to be an Array, but found Number instead.''))"
proof -
  have arr: "as x (array x (Str (''Array'' @ rest)) items) ''Array'' name
        = Inr (array x (Str (''Array'' @ rest)) items)" for rest
    using regex_test_Array_prefix[of rest]
    by (simp add: as_def array_def typeOf_def ToString_def ensure_def)
  have num: "as x (Num n) ''Array'' name
       = Inl (RuntimeError (''Expected '' @ or_else name ''value''
                @ '' to be an Array, but found Number instead.''))"
    using not_regex_test_Number by (simp add: as_def typeOf_Num ToString_def ensure_def)
  show ?thesis
    using arr[of "[]"] arr[of "''<string>''"] arr[of "''<number>''"] arr[of "''<boolean>''"]
      arr num
    by simp
qed

theorem as_Array_accepts_arrays_rejects_number_witness:
  "as sample_ext (array sample_ext (Str ''Array<number>'') (Arr [Num (Fin 1), Num (Fin 2)]))
      ''Array'' None
     = Inr (Obj [(''type'', Str ''Array''), (''arrayType'', Str ''Array<number>''),
                 (''items'', Arr [Num (Fin 1), Num (Fin 2)])])
   \<and> as sample_ext (Num (Fin 7)) ''Array'' None
       = Inl (RuntimeError ''Expected value to be an Array, but found Number instead.'')"
  using as_Array_accepts_arrays_rejects_number
          [of sample_ext "Arr [Num (Fin 1), Num (Fin 2)]" None "Fin 7"]
  by (simp add: array_def or_else_def)

section \<open>Property access\<close>

text \<open>
  The list of keys in the message of \<^verbatim>\<open>get\<close> does not depend on the entries: it is
  \<^verbatim>\<open>Object.keys\<close> of the wrapper.
\<close>

lemma get_missing_message:
  assumes "k \<notin> set (map fst m)" and "''hasOwnProperty'' \<notin> set (map fst m)"
  shows "get x (object (Obj m)) k None
     = Inl (RuntimeError (''Property '' @ apostrophe @ k @ apostrophe
              @ '' not found in object with keys: [type, value]''))"
  using assms
  by (simp add: get_def has_def as_def ensure_def object_def typeOf_def ToString_def
        get_prop_def or_else_def)

text \<open>
  C6. For an Object value whose entries do not hold the key, \<^verbatim>\<open>get\<close> without a
  name throws the "Property not found" error. The keys that its message lists are
  those of the wrapper, \<^verbatim>\<open>type\<close> and \<^verbatim>\<open>value\<close>, not the entry keys: for the
  entries \<^verbatim>\<open>{a: 1}\<close> and the key \<^verbatim>\<open>b\<close> the message does not mention \<^verbatim>\<open>a\<close>.
\<close>

theorem get_missing_lists_wrapper_keys:
  "get sample_ext (object (Obj [(''a'', Num (Fin 1))])) ''b'' None
     = Inl (RuntimeError (''Property '' @ apostrophe @ ''b'' @ apostrophe
              @ '' not found in object with keys: [type, value]''))"
  by (simp add: get_def has_def as_def ensure_def object_def typeOf_def ToString_def
        get_prop_def or_else_def)

section \<open>Wrapping and unwrapping\<close>

text \<open>
  C8. Unwrapping a wrapped value gives the wrapped data back: \<^verbatim>\<open>unwrap(object(m))\<close>
  is \<open>m\<close>, and \<^verbatim>\<open>unwrap(array(null, items))\<close> is \<open>items\<close>, for every mapping and
  every item sequence.
\<close>

theorem unwrap_roundtrip:
  "unwrap x (object m) = Inr m \<and> unwrap x (array x Null (Arr items)) = Inr (Arr items)"
  by (simp add: unwrap_def object_def array_def)

theorem unwrap_roundtrip_witness:
  "unwrap sample_ext (object (Obj [(''name'', Str ''Main St'')]))
     = Inr (Obj [(''name'', Str ''Main St'')])
   \<and> unwrap sample_ext (array sample_ext Null (Arr [Num (Fin 1), Str ''a'']))
       = Inr (Arr [Num (Fin 1), Str ''a''])"
  using unwrap_roundtrip [of sample_ext "Obj [(''name'', Str ''Main St'')]"
          "[Num (Fin 1), Str ''a'']"]
  by simp

section \<open>Colors\<close>

text \<open>
  C10. \<^verbatim>\<open>rgba(r, g, b, a)\<close> is the Color whose channels are \<open>r / 255\<close>, \<open>g / 255\<close>,
  \<open>b / 255\<close> and \<open>a\<close> itself, which is not divided; without \<open>a\<close> the alpha
  channel is 1.
\<close>

theorem rgba_channels:
  "rgba r g b (Some a)
     = Obj [(''type'', Str ''Color''),
            (''value'', Arr [Num (num_div r (Fin 255)), Num (num_div g (Fin 255)),
                             Num (num_div b (Fin 255)), Num a])]
   \<and> rgba r g b None
     = Obj [(''type'', Str ''Color''),
            (''value'', Arr [Num (num_div r (Fin 255)), Num (num_div g (Fin 255)),
                             Num (num_div b (Fin 255)), Num (Fin 1)])]
   \<and> rgba (Fin r') (Fin g') (Fin b') (Some a)
     = Obj [(''type'', Str ''Color''),
            (''value'', Arr [Num (Fin (r' / 255)), Num (Fin (g' / 255)),
                             Num (Fin (b' / 255)), Num a])]
   \<and> typeOf (rgba r g b (Some a)) = Str ''Color''
   \<and> unwrap x (rgba r g b (Some a))
     = Inr (Arr [Num (num_div r (Fin 255)), Num (num_div g (Fin 255)),
                 Num (num_div b (Fin 255)), Num a])"
  by (simp add: rgba_def typeOf_def unwrap_def)

theorem rgba_channels_witness:
  "rgba (Fin 255) (Fin 0) (Fin 51) (Some (Fin 128))
     = Obj [(''type'', Str ''Color''),
            (''value'', Arr [Num (Fin 1), Num (Fin 0), Num (Fin (1 / 5)), Num (Fin 128)])]
   \<and> rgba (Fin 255) (Fin 0) (Fin 51) None
     = Obj [(''type'', Str ''Color''),
            (''value'', Arr [Num (Fin 1), Num (Fin 0), Num (Fin (1 / 5)), Num (Fin 1)])]"
  using rgba_channels [of "Fin 255" "Fin 0" "Fin 51" "Fin 128" 255 0 51 sample_ext]
  by simp

section \<open>Coalesce\<close>

lemma coalesce_passed_over:
  "passed_over pre s \<Longrightarrow> rest \<noteq> [] \<Longrightarrow>
     coalesce (pre @ rest) s = coalesce rest (state_after pre s)"
proof (induction pre arbitrary: s)
  case Nil
  then show ?case by simp
next
  case (Cons t pre)
  obtain r s' where ts: "t s = (r, s')" by (cases "t s")
  show ?case
  proof (cases r)
    case (Inl e)
    with Cons ts show ?thesis by simp
  next
    case (Inr v)
    with Cons ts show ?thesis by simp
  qed
qed

text \<open>
  C1. \<^verbatim>\<open>coalesce\<close> calls its thunks in order. Without thunks the result is
  \<^verbatim>\<open>null\<close>. When the thunks before \<open>t\<close> each throw or return \<^verbatim>\<open>null\<close> and \<open>t\<close>
  returns a value other than \<^verbatim>\<open>null\<close>, that value is the result and the state is
  the one \<open>t\<close> leaves: no later thunk is called. When \<open>t\<close> is the last thunk and
  throws, its error is thrown; when it is the last and returns \<^verbatim>\<open>null\<close>, the result
  is \<^verbatim>\<open>null\<close>. A thunk that throws and is not the last counts as one that returned
  \<^verbatim>\<open>null\<close>.
\<close>

theorem coalesce_first_non_null:
  "coalesce [] s = (Inr Null, s)
   \<and> (\<forall>pre t post v s'.
        passed_over pre s \<and> t (state_after pre s) = (Inr v, s') \<and> v \<noteq> Null \<longrightarrow>
        coalesce (pre @ t # post) s = (Inr v, s'))
   \<and> (\<forall>pre t e s'.
        passed_over pre s \<and> t (state_after pre s) = (Inl e, s') \<longrightarrow>
        coalesce (pre @ [t]) s = (Inl e, s'))
   \<and> (\<forall>pre t s'.
        passed_over pre s \<and> t (state_after pre s) = (Inr Null, s') \<longrightarrow>
        coalesce (pre @ [t]) s = (Inr Null, s'))
   \<and> (\<forall>t e s' rest.
        t s = (Inl e, s') \<and> rest \<noteq> [] \<longrightarrow>
        coalesce (t # rest) s = coalesce ((\<lambda>_. (Inr Null, s')) # rest) s)"
  by (simp add: coalesce_passed_over)

theorem coalesce_first_non_null_witness:
  "passed_over [failingThunk, constantThunk Null] 0
   \<and> constantThunk (Num (Fin 5)) (state_after [failingThunk, constantThunk Null] 0)
       = (Inr (Num (Fin 5)), 3)
   \<and> coalesce ([failingThunk, constantThunk Null] @ constantThunk (Num (Fin 5)) # [failingThunk]) 0
       = (Inr (Num (Fin 5)), 3)
   \<and> failingThunk (state_after [failingThunk, constantThunk Null] 0)
       = (Inl (RuntimeError ''failing''), 3)
   \<and> coalesce ([failingThunk, constantThunk Null] @ [failingThunk]) 0
       = (Inl (RuntimeError ''failing''), 3)"
proof -
  have h: "passed_over [failingThunk, constantThunk Null] 0"
    "constantThunk (Num (Fin 5)) (state_after [failingThunk, constantThunk Null] 0)
       = (Inr (Num (Fin 5)), 3)"
    "failingThunk (state_after [failingThunk, constantThunk Null] 0)
       = (Inl (RuntimeError ''failing''), 3)"
    by (simp_all add: failingThunk_def constantThunk_def)
  note c = coalesce_first_non_null [of "0::nat"]
  have "coalesce ([failingThunk, constantThunk Null] @ constantThunk (Num (Fin 5)) # [failingThunk]) 0
       = (Inr (Num (Fin 5)), 3)"
    using c [THEN conjunct2, THEN conjunct1, rule_format,
        of "[failingThunk, constantThunk Null]" "constantThunk (Num (Fin 5))" "Num (Fin 5)" 3
           "[failingThunk]"] h
    by simp
  moreover have "coalesce ([failingThunk, constantThunk Null] @ [failingThunk]) 0
       = (Inl (RuntimeError ''failing''), 3)"
    using c [THEN conjunct2, THEN conjunct2, THEN conjunct1, rule_format,
        of "[failingThunk, constantThunk Null]" failingThunk "RuntimeError ''failing''" 3] h
    by simp
  ultimately show ?thesis using h by simp
qed

section \<open>The search for the bracketing stop\<close>

lemma findStop_loop_exit:
  "\<not> l \<le> u \<Longrightarrow> findStop_loop stops input l u c = Some (max (c - 1) 0)"
  by (subst findStop_loop.simps) simp

lemma findStop_loop_step:
  assumes "l \<le> u"
  shows "findStop_loop stops input l u c =
     (let m = (l + u) div 2; cv = und (stop_at stops m); uv = und (stop_at stops (m + 1))
      in if num_seq input cv \<or> num_gt input cv \<and> num_lt input uv then Some m
         else if num_lt cv input then findStop_loop stops input (m + 1) u m
         else if num_gt cv input then findStop_loop stops input l (m - 1) m
         else findStop_loop stops input l u m)"
  using assms by (subst findStop_loop.simps) simp

text \<open>
  On finite numbers every round returns or narrows the interval, so the loop ends, and
  every index it can return is an index of the array.
\<close>

lemma findStop_loop_finite:
  assumes fin: "list_all is_finite stops" "is_finite input"
  shows "0 \<le> l \<Longrightarrow> u < int (length stops) \<Longrightarrow> 0 \<le> c \<Longrightarrow> c < int (length stops) \<Longrightarrow>
     \<exists>i. findStop_loop stops input l u c = Some i \<and> 0 \<le> i \<and> i < int (length stops)"
proof (induction "nat (u - l + 1)" arbitrary: l u c rule: less_induct)
  case less
  show ?case
  proof (cases "l \<le> u")
    case False
    with less.prems show ?thesis by (auto simp: findStop_loop_exit)
  next
    case True
    define m where "m = (l + u) div 2"
    have m: "l \<le> m" "m \<le> u" using True by (simp_all add: m_def)
    then have mr: "0 \<le> m" "m < int (length stops)" using less.prems by simp_all
    then have "nat m < length stops" by simp
    then have "is_finite (stops ! nat m)" using fin(1) by (simp add: list_all_length)
    then obtain a where a: "stops ! nat m = Fin a" by (cases "stops ! nat m") auto
    obtain b where b: "input = Fin b" using fin(2) by (cases input) auto
    have cv: "und (stop_at stops m) = Fin a" using mr a by (simp add: stop_at_def und_def)
    have step: "findStop_loop stops input l u c =
      (if num_seq input (Fin a)
          \<or> num_gt input (Fin a) \<and> num_lt input (und (stop_at stops (m + 1))) then Some m
       else if num_lt (Fin a) input then findStop_loop stops input (m + 1) u m
       else if num_gt (Fin a) input then findStop_loop stops input l (m - 1) m
       else findStop_loop stops input l u m)"
      using findStop_loop_step[OF True, of stops input c] cv by (simp add: Let_def m_def)
    consider (eq) "a = b" | (lt) "a < b" | (gt) "b < a" by linarith
    then show ?thesis
    proof cases
      case eq
      then show ?thesis using step b mr by (simp add: num_seq_def)
    next
      case lt
      have "\<exists>i. findStop_loop stops input (m + 1) u m = Some i \<and> 0 \<le> i
          \<and> i < int (length stops)"
        using less.hyps[of u "m + 1" m] m mr less.prems by simp
      then show ?thesis using step b lt mr by (auto simp: num_seq_def num_gt_def)
    next
      case gt
      have "\<exists>i. findStop_loop stops input l (m - 1) m = Some i \<and> 0 \<le> i
          \<and> i < int (length stops)"
        using less.hyps[of "m - 1" l m] m mr less.prems by simp
      then show ?thesis using step b gt mr by (auto simp: num_seq_def num_gt_def)
    qed
  qed
qed

text \<open>
  C9. On a non-empty array of finite numbers and a finite input,
  \<^verbatim>\<open>findStopLessThanOrEqualTo\<close> returns, and what it returns is an index between 0
  and \<open>n - 1\<close>. The array need not be sorted.
\<close>

theorem findStop_terminates_in_range:
  assumes "stops \<noteq> []" "list_all is_finite stops" "is_finite input"
  shows "\<exists>i. findStopLessThanOrEqualTo stops input = Some i
           \<and> 0 \<le> i \<and> i \<le> int (length stops) - 1"
proof -
  have "\<exists>i. findStop_loop stops input 0 (int (length stops) - 1) 0 = Some i
      \<and> 0 \<le> i \<and> i < int (length stops)"
    using assms by (intro findStop_loop_finite) simp_all
  then show ?thesis by (auto simp: findStopLessThanOrEqualTo_def)
qed

theorem findStop_terminates_in_range_witness:
  "[Fin 3, Fin 1, Fin 2] \<noteq> [] \<and> list_all is_finite [Fin 3, Fin 1, Fin 2] \<and> is_finite (Fin 0)
   \<and> (\<exists>i. findStopLessThanOrEqualTo [Fin 3, Fin 1, Fin 2] (Fin 0) = Some i
          \<and> 0 \<le> i \<and> i \<le> int (length [Fin 3, Fin 1, Fin 2]) - 1)"
proof -
  have h: "[Fin 3, Fin 1, Fin 2] \<noteq> []" "list_all is_finite [Fin 3, Fin 1, Fin 2]"
    "is_finite (Fin 0)"
    by simp_all
  from findStop_terminates_in_range [OF h] h show ?thesis by blast
qed

text \<open>
  On strictly increasing stops, and an input strictly between the first and the last,
  the loop keeps the stops before \<open>l\<close> below the input and those after \<open>u\<close> above
  it, and returns the index whose stop is at most the input and whose successor is
  above it.
\<close>

lemma findStop_loop_sorted:
  assumes sorted: "sorted_wrt num_lt stops"
    and first: "num_lt (stops ! 0) input"
    and last: "num_lt input (stops ! (length stops - 1))"
  shows "0 \<le> l \<Longrightarrow> l \<le> u \<Longrightarrow> u < int (length stops) \<Longrightarrow>
     (\<forall>j. j < nat l \<longrightarrow> num_lt (stops ! j) input) \<Longrightarrow>
     (\<forall>j. nat u < j \<and> j < length stops \<longrightarrow> num_lt input (stops ! j)) \<Longrightarrow>
     \<exists>i. findStop_loop stops input l u c = Some (int i) \<and> Suc i < length stops
        \<and> num_le (stops ! i) input \<and> num_lt input (stops ! Suc i)"
proof (induction "nat (u - l + 1)" arbitrary: l u c rule: less_induct)
  case less
  define m where "m = (l + u) div 2"
  define k where "k = nat m"
  have m: "l \<le> m" "m \<le> u" using less.prems by (simp_all add: m_def)
  then have mr: "0 \<le> m" "m < int (length stops)" using less.prems by simp_all
  have k: "k < length stops" "m = int k" using mr by (simp_all add: k_def)
  have inN: "input \<noteq> NaN" using first num_lt_not_NaN by blast
  have cvN: "stops ! k \<noteq> NaN"
  proof (cases "k = 0")
    case True
    then show ?thesis using first num_lt_not_NaN by auto
  next
    case False
    then have "num_lt (stops ! 0) (stops ! k)"
      using sorted k by (simp add: sorted_wrt_num_lt_nth)
    then show ?thesis using num_lt_not_NaN by blast
  qed
  have cv: "und (stop_at stops m) = stops ! k" using mr k by (simp add: stop_at_def und_def)
  have step: "findStop_loop stops input l u c =
      (if num_seq input (stops ! k)
          \<or> num_gt input (stops ! k) \<and> num_lt input (und (stop_at stops (m + 1))) then Some m
       else if num_lt (stops ! k) input then findStop_loop stops input (m + 1) u m
       else if num_gt (stops ! k) input then findStop_loop stops input l (m - 1) m
       else findStop_loop stops input l u m)"
    using findStop_loop_step[of l u stops input c] less.prems(2) cv by (simp add: Let_def m_def)
  have notlast: "input = stops ! k \<or> num_lt (stops ! k) input \<Longrightarrow> Suc k < length stops"
  proof (rule ccontr)
    assume a: "input = stops ! k \<or> num_lt (stops ! k) input" and "\<not> Suc k < length stops"
    then have "k = length stops - 1" using k by simp
    then show False using a last num_lt_irrefl num_lt_asym by metis
  qed
  from num_trichotomy[OF inN cvN]
  consider (eq) "input = stops ! k" | (lt) "num_lt (stops ! k) input"
    | (gt) "num_lt input (stops ! k)"
    by blast
  then show ?case
  proof cases
    case eq
    then have S: "Suc k < length stops" using notlast by simp
    then have "num_lt (stops ! k) (stops ! Suc k)"
      using sorted by (simp add: sorted_wrt_num_lt_nth)
    then show ?thesis using step eq S inN k
      by (intro exI[of _ k]) (simp add: num_seq_def num_le_def num_lt_irrefl)
  next
    case lt
    then have S: "Suc k < length stops" using notlast by simp
    have uv: "und (stop_at stops (m + 1)) = stops ! Suc k"
      using S k by (simp add: stop_at_def und_def nat_add_distrib)
    show ?thesis
    proof (cases "num_lt input (stops ! Suc k)")
      case True
      then show ?thesis using step lt S uv inN cvN k
        by (intro exI[of _ k]) (simp add: num_gt_def num_le_def num_lt_asym)
    next
      case False
      have nseq: "\<not> num_seq input (stops ! k)"
        using lt num_lt_irrefl by (auto simp: num_seq_def)
      have st: "findStop_loop stops input l u c = findStop_loop stops input (m + 1) u m"
        using step lt False uv nseq by simp
      have mu: "m + 1 \<le> u"
      proof (rule ccontr)
        assume "\<not> m + 1 \<le> u"
        then have "u = m" using m by simp
        then have "num_lt input (stops ! Suc k)" using less.prems(5) S k by simp
        then show False using False by simp
      qed
      have below: "\<forall>j. j < nat (m + 1) \<longrightarrow> num_lt (stops ! j) input"
      proof (intro allI impI)
        fix j assume "j < nat (m + 1)"
        then have "j \<le> k" using k by simp
        then show "num_lt (stops ! j) input"
        proof (cases "j = k")
          case True then show ?thesis using lt by simp
        next
          case False
          then have "num_lt (stops ! j) (stops ! k)"
            using \<open>j \<le> k\<close> k sorted by (simp add: sorted_wrt_num_lt_nth)
          then show ?thesis using lt num_lt_trans by blast
        qed
      qed
      have "\<exists>i. findStop_loop stops input (m + 1) u m = Some (int i) \<and> Suc i < length stops
        \<and> num_le (stops ! i) input \<and> num_lt input (stops ! Suc i)"
        using less.hyps[of u "m + 1" m] mu mr m less.prems below by simp
      then show ?thesis using st by simp
    qed
  next
    case gt
    have c1: "\<not> num_seq input (stops ! k)" using gt num_lt_irrefl by (auto simp: num_seq_def)
    have c2: "\<not> num_gt input (stops ! k)" using gt num_lt_asym by (auto simp: num_gt_def)
    have c3: "\<not> num_lt (stops ! k) input" using gt num_lt_asym by auto
    have st: "findStop_loop stops input l u c = findStop_loop stops input l (m - 1) m"
      using step c1 c2 c3 gt by (simp add: num_gt_def)
    have above: "\<forall>j. nat (m - 1) < j \<and> j < length stops \<longrightarrow> num_lt input (stops ! j)"
    proof (intro allI impI)
      fix j assume j: "nat (m - 1) < j \<and> j < length stops"
      then have "k \<le> j" using k by linarith
      show "num_lt input (stops ! j)"
      proof (cases "j = k")
        case True then show ?thesis using gt by simp
      next
        case False
        then have "num_lt (stops ! k) (stops ! j)"
          using \<open>k \<le> j\<close> j sorted by (simp add: sorted_wrt_num_lt_nth)
        then show ?thesis using gt num_lt_trans by blast
      qed
    qed
    have k0: "k \<noteq> 0" using gt first num_lt_asym by (cases "k = 0") auto
    show ?thesis
    proof (cases "l \<le> m - 1")
      case True
      have "\<exists>i. findStop_loop stops input l (m - 1) m = Some (int i) \<and> Suc i < length stops
        \<and> num_le (stops ! i) input \<and> num_lt input (stops ! Suc i)"
        using less.hyps[of "m - 1" l m] True mr m less.prems above by simp
      then show ?thesis using st by simp
    next
      case False
      then have lm: "l = m" using m by simp
      have ex: "findStop_loop stops input l (m - 1) m = Some (max (m - 1) 0)"
        using False by (simp add: findStop_loop_exit)
      have "k - 1 < nat l" using lm k k0 by simp
      then have b: "num_lt (stops ! (k - 1)) input" using less.prems(4) by blast
      have "max (m - 1) 0 = int (k - 1)" using k k0 by simp
      then show ?thesis using st ex b gt k k0 inN num_lt_not_NaN[OF b]
        by (intro exI[of _ "k - 1"]) (simp add: num_le_def num_lt_asym)
    qed
  qed
qed

section \<open>Curve evaluation\<close>

lemma evaluateCurve_in_range:
  assumes "length stopInputs \<noteq> 1"
    and "\<not> num_le input (und (stop_at stopInputs 0))"
    and "\<not> num_ge input (und (stop_at stopInputs (int (length stopInputs) - 1)))"
    and "findStopLessThanOrEqualTo stopInputs input = Some i"
  shows "evaluateCurve x input stopInputs stopOutputs Step resultType s
           = Some (call_stop stopOutputs i s)"
  using assms by (simp add: evaluateCurve_def as_Number Let_def)

lemma findStop_three: "findStopLessThanOrEqualTo [Fin 0, Fin 5, Fin 10] (Fin 7) = Some 1"
  by (simp add: findStopLessThanOrEqualTo_def findStop_loop_step stop_at_def und_def
        num_seq_def num_gt_def)

lemma findStop_two: "findStopLessThanOrEqualTo [Fin 0, Fin 10] (Fin 5) = Some 0"
  by (simp add: findStopLessThanOrEqualTo_def findStop_loop_step stop_at_def und_def
        num_seq_def num_gt_def)

text \<open>
  C2. For strictly increasing stop inputs, at least two of them, the \<^verbatim>\<open>step\<close>
  interpolation and an input strictly between the first and the last stop input,
  \<^verbatim>\<open>evaluateCurve\<close> returns what \<^verbatim>\<open>stopOutputs[i]()\<close> returns, called once and
  nothing else called, where \<open>i\<close> is the greatest index whose stop input is at most
  the input.
\<close>

theorem evaluateCurve_step:
  assumes inc: "sorted_wrt num_lt stopInputs"
    and len: "2 \<le> length stopInputs"
    and lo: "num_lt (stopInputs ! 0) input"
    and hi: "num_lt input (stopInputs ! (length stopInputs - 1))"
  shows "\<exists>i < length stopInputs.
           num_le (stopInputs ! i) input
         \<and> (\<forall>j < length stopInputs. num_le (stopInputs ! j) input \<longrightarrow> j \<le> i)
         \<and> evaluateCurve x input stopInputs stopOutputs Step resultType s
             = Some (call_stop stopOutputs (int i) s)
         \<and> (length stopOutputs = length stopInputs \<longrightarrow>
             evaluateCurve x input stopInputs stopOutputs Step resultType s
               = Some ((stopOutputs ! i) s))"
proof -
  let ?n = "length stopInputs"
  have "\<exists>i. findStop_loop stopInputs input 0 (int ?n - 1) 0 = Some (int i) \<and> Suc i < ?n
        \<and> num_le (stopInputs ! i) input \<and> num_lt input (stopInputs ! Suc i)"
    using len by (intro findStop_loop_sorted[OF inc lo hi]) auto
  then obtain i where i: "findStopLessThanOrEqualTo stopInputs input = Some (int i)"
    "Suc i < ?n" "num_le (stopInputs ! i) input" "num_lt input (stopInputs ! Suc i)"
    by (auto simp: findStopLessThanOrEqualTo_def)
  have greatest: "j \<le> i" if j: "j < ?n" "num_le (stopInputs ! j) input" for j
  proof (rule ccontr)
    assume "\<not> j \<le> i"
    then have "Suc i = j \<or> Suc i < j" by auto
    then have "stopInputs ! Suc i = stopInputs ! j
        \<or> num_lt (stopInputs ! Suc i) (stopInputs ! j)"
      using inc j(1) by (auto simp: sorted_wrt_num_lt_nth)
    then have "num_lt input (stopInputs ! j)" using i(4) num_lt_trans by auto
    then show False using j(2) by (simp add: num_le_def)
  qed
  have c1: "\<not> num_le input (und (stop_at stopInputs 0))"
    using lo len by (simp add: stop_at_def und_def num_le_def)
  have c2: "\<not> num_ge input (und (stop_at stopInputs (int ?n - 1)))"
    using hi len by (simp add: stop_at_def und_def num_ge_def nat_diff_distrib)
  have ev: "evaluateCurve x input stopInputs stopOutputs Step resultType s
      = Some (call_stop stopOutputs (int i) s)"
    using evaluateCurve_in_range[OF _ c1 c2 i(1)] len by simp
  show ?thesis
    using i(2,3) greatest ev by (intro exI[of _ i]) (simp add: call_stop_def)
qed

theorem evaluateCurve_step_witness:
  "sorted_wrt num_lt [Fin 0, Fin 5, Fin 10] \<and> 2 \<le> length [Fin 0, Fin 5, Fin 10]
   \<and> num_lt ([Fin 0, Fin 5, Fin 10] ! 0) (Fin 7)
   \<and> num_lt (Fin 7) ([Fin 0, Fin 5, Fin 10] ! (length [Fin 0, Fin 5, Fin 10] - 1))
   \<and> (\<exists>i < length [Fin 0, Fin 5, Fin 10].
         evaluateCurve sample_ext (Fin 7) [Fin 0, Fin 5, Fin 10]
           [constantThunk (Str ''a''), constantThunk (Str ''b''), constantThunk (Str ''c'')]
           Step ''string'' 0
         = Some (call_stop
             [constantThunk (Str ''a''), constantThunk (Str ''b''), constantThunk (Str ''c'')]
             (int i) 0))
   \<and> evaluateCurve sample_ext (Fin 7) [Fin 0, Fin 5, Fin 10]
        [constantThunk (Str ''a''), constantThunk (Str ''b''), constantThunk (Str ''c'')]
        Step ''string'' 0
      = Some (Inr (Str ''b''), 1)"
proof -
  have h: "sorted_wrt num_lt [Fin 0, Fin 5, Fin 10]" "2 \<le> length [Fin 0, Fin 5, Fin 10]"
    "num_lt ([Fin 0, Fin 5, Fin 10] ! 0) (Fin 7)"
    "num_lt (Fin 7) ([Fin 0, Fin 5, Fin 10] ! (length [Fin 0, Fin 5, Fin 10] - 1))"
    by simp_all
  have v: "evaluateCurve sample_ext (Fin 7) [Fin 0, Fin 5, Fin 10]
        [constantThunk (Str ''a''), constantThunk (Str ''b''), constantThunk (Str ''c'')]
        Step ''string'' 0
      = Some (Inr (Str ''b''), 1)"
    by (simp add: evaluateCurve_def as_Number findStop_three stop_at_def und_def num_le_def
          num_ge_def call_stop_def constantThunk_def)
  from evaluateCurve_step [OF h, of sample_ext
      "[constantThunk (Str ''a''), constantThunk (Str ''b''), constantThunk (Str ''c'')]"
      "''string''" 0]
  have "\<exists>i < length [Fin 0, Fin 5, Fin 10].
         evaluateCurve sample_ext (Fin 7) [Fin 0, Fin 5, Fin 10]
           [constantThunk (Str ''a''), constantThunk (Str ''b''), constantThunk (Str ''c'')]
           Step ''string'' 0
         = Some (call_stop
             [constantThunk (Str ''a''), constantThunk (Str ''b''), constantThunk (Str ''c'')]
             (int i) 0)"
    by blast
  with h v show ?thesis by blast
qed

text \<open>
  The tests of \<^verbatim>\<open>evaluateCurve\<close> run in order: \<^verbatim>\<open>input <= stopInputs[0]\<close> comes
  before \<^verbatim>\<open>input >= stopInputs[stopCount - 1]\<close>. On the sorted stops 5, 5 and the
  input 5, which is at or above the last stop input, the result is the output of the
  first stop and not that of the last.
\<close>

theorem evaluateCurve_boundary_counterexample:
  "sorted_wrt num_le [Fin 5, Fin 5]
   \<and> num_ge (Fin 5) ([Fin 5, Fin 5] ! (length [Fin 5, Fin 5] - 1))
   \<and> evaluateCurve sample_ext (Fin 5) [Fin 5, Fin 5]
        [constantThunk (Str ''first''), constantThunk (Str ''last'')] Linear ''string'' 0
      = Some (Inr (Str ''first''), 1)
   \<and> call_stop [constantThunk (Str ''first''), constantThunk (Str ''last'')]
        (int (length [Fin 5, Fin 5]) - 1) 0
      = (Inr (Str ''last''), 1)
   \<and> evaluateCurve sample_ext (Fin 5) [Fin 5, Fin 5]
        [constantThunk (Str ''first''), constantThunk (Str ''last'')] Linear ''string'' 0
      \<noteq> Some (call_stop [constantThunk (Str ''first''), constantThunk (Str ''last'')]
                (int (length [Fin 5, Fin 5]) - 1) 0)"
  by (simp add: evaluateCurve_def as_Number stop_at_def und_def num_le_def num_ge_def
        call_stop_def constantThunk_def)

text \<open>
  C3, amended. Whatever the interpolation and the result type: with exactly one stop,
  or an input at or below the first stop input, \<^verbatim>\<open>evaluateCurve\<close> returns what the
  first output thunk returns, called once; with an input at or above the last stop
  input that is not at or below the first stop input, it returns what the last output
  thunk returns. Nothing is interpolated. On strictly increasing stops every input at
  or above the last stop input gives the last output. On stops that are only sorted,
  an input that is both at or above the last and at or below the first stop input
  gives the first output; the two boundary stops then have the same input.
\<close>

theorem evaluateCurve_boundary:
  "(length stopInputs = 1 \<or> stopInputs \<noteq> [] \<and> num_le input (stopInputs ! 0) \<longrightarrow>
      evaluateCurve x input stopInputs stopOutputs interpolation resultType s
        = Some (call_stop stopOutputs 0 s))
   \<and> (stopInputs \<noteq> [] \<and> num_ge input (stopInputs ! (length stopInputs - 1))
        \<and> \<not> num_le input (stopInputs ! 0) \<longrightarrow>
      evaluateCurve x input stopInputs stopOutputs interpolation resultType s
        = Some (call_stop stopOutputs (int (length stopInputs) - 1) s))
   \<and> (sorted_wrt num_lt stopInputs \<and> stopInputs \<noteq> []
        \<and> num_ge input (stopInputs ! (length stopInputs - 1)) \<longrightarrow>
      evaluateCurve x input stopInputs stopOutputs interpolation resultType s
        = Some (call_stop stopOutputs (int (length stopInputs) - 1) s))
   \<and> (sorted_wrt num_le stopInputs \<and> stopInputs \<noteq> []
        \<and> num_ge input (stopInputs ! (length stopInputs - 1)) \<longrightarrow>
      (\<exists>b \<in> {0, length stopInputs - 1}.
          num_seq (stopInputs ! b) (stopInputs ! (length stopInputs - 1))
        \<and> evaluateCurve x input stopInputs stopOutputs interpolation resultType s
            = Some (call_stop stopOutputs (int b) s)))"
proof -
  let ?n = "length stopInputs"
  let ?ev = "evaluateCurve x input stopInputs stopOutputs interpolation resultType s"
  have A: "?ev = Some (call_stop stopOutputs 0 s)"
    if "?n = 1 \<or> stopInputs \<noteq> [] \<and> num_le input (stopInputs ! 0)"
    using that by (auto simp: evaluateCurve_def as_Number stop_at_def und_def Let_def)
  have B: "?ev = Some (call_stop stopOutputs (int ?n - 1) s)"
    if a: "stopInputs \<noteq> []" "num_ge input (stopInputs ! (?n - 1))"
      "\<not> num_le input (stopInputs ! 0)"
  proof -
    have "und (stop_at stopInputs (int ?n - 1)) = stopInputs ! (?n - 1)"
      using a(1) by (cases stopInputs) (auto simp: stop_at_def und_def nat_diff_distrib)
    moreover have "und (stop_at stopInputs 0) = stopInputs ! 0"
      using a(1) by (simp add: stop_at_def und_def)
    ultimately show ?thesis
      using a by (auto simp: evaluateCurve_def as_Number Let_def)
  qed
  have D: "?ev = Some (call_stop stopOutputs (int ?n - 1) s)"
    if a: "sorted_wrt num_lt stopInputs" "stopInputs \<noteq> []"
      "num_ge input (stopInputs ! (?n - 1))"
  proof (cases "?n = 1")
    case True
    then show ?thesis using A by simp
  next
    case False
    then have "0 < ?n - 1" "?n - 1 < ?n" using a(2) by (cases stopInputs; simp)+
    then have fl: "num_lt (stopInputs ! 0) (stopInputs ! (?n - 1))"
      using a(1) by (simp add: sorted_wrt_num_lt_nth)
    have nn: "input \<noteq> NaN" "stopInputs ! (?n - 1) \<noteq> NaN" "\<not> num_lt input (stopInputs ! (?n - 1))"
      using a(3) by (simp_all add: num_ge_def)
    from num_trichotomy[OF nn(1,2)] nn(3)
    have "input = stopInputs ! (?n - 1) \<or> num_lt (stopInputs ! (?n - 1)) input" by blast
    then have "num_lt (stopInputs ! 0) input" using fl num_lt_trans by blast
    then have "\<not> num_le input (stopInputs ! 0)" by (simp add: num_le_def)
    then show ?thesis using B[OF a(2,3)] by simp
  qed
  have C: "\<exists>b \<in> {0, ?n - 1}. num_seq (stopInputs ! b) (stopInputs ! (?n - 1))
        \<and> ?ev = Some (call_stop stopOutputs (int b) s)"
    if a: "sorted_wrt num_le stopInputs" "stopInputs \<noteq> []"
      "num_ge input (stopInputs ! (?n - 1))"
  proof (cases "num_le input (stopInputs ! 0)")
    case False
    have "stopInputs ! (?n - 1) \<noteq> NaN" using a(3) by (simp add: num_ge_def)
    moreover have "int (?n - 1) = int ?n - 1" using a(2) by (cases stopInputs) auto
    ultimately show ?thesis using B[OF a(2,3) False] by (simp add: num_seq_def)
  next
    case True
    have last_le: "num_le (stopInputs ! (?n - 1)) input"
      using a(3) by (auto simp: num_ge_def num_le_def)
    have "stopInputs ! 0 = stopInputs ! (?n - 1) \<and> stopInputs ! 0 \<noteq> NaN"
    proof (cases "?n = 1")
      case True
      then show ?thesis using last_le by (simp add: num_le_def)
    next
      case False
      then have "0 < ?n - 1" "?n - 1 < ?n" using a(2) by (cases stopInputs; simp)+
      then have "num_le (stopInputs ! 0) (stopInputs ! (?n - 1))"
        using a(1) by (simp add: sorted_wrt_iff_nth_less)
      then show ?thesis using num_le_antisym_cycle last_le True by blast
    qed
    then show ?thesis using A a(2) True by (intro bexI[of _ 0]) (auto simp: num_seq_def)
  qed
  show ?thesis using A B C D by blast
qed

theorem evaluateCurve_boundary_witness:
  "num_le (Fin (- 3)) ([Fin 0, Fin 10] ! 0)
   \<and> evaluateCurve sample_ext (Fin (- 3)) [Fin 0, Fin 10]
        [constantThunk (Num (Fin 1)), constantThunk (Num (Fin 2))] Linear ''number'' 0
      = Some (Inr (Num (Fin 1)), 1)
   \<and> sorted_wrt num_lt [Fin 0, Fin 10]
   \<and> num_ge (Fin 12) ([Fin 0, Fin 10] ! (length [Fin 0, Fin 10] - 1))
   \<and> \<not> num_le (Fin 12) ([Fin 0, Fin 10] ! 0)
   \<and> evaluateCurve sample_ext (Fin 12) [Fin 0, Fin 10]
        [constantThunk (Num (Fin 1)), constantThunk (Num (Fin 2))] Linear ''number'' 0
      = Some (Inr (Num (Fin 2)), 1)"
proof -
  have h: "num_le (Fin (- 3)) ([Fin 0, Fin 10] ! 0)"
    "num_ge (Fin 12) ([Fin 0, Fin 10] ! (length [Fin 0, Fin 10] - 1))"
    "\<not> num_le (Fin 12) ([Fin 0, Fin 10] ! 0)"
    "sorted_wrt num_lt [Fin 0, Fin 10]"
    by (simp_all add: num_le_def num_ge_def)
  have "evaluateCurve sample_ext (Fin (- 3)) [Fin 0, Fin 10]
        [constantThunk (Num (Fin 1)), constantThunk (Num (Fin 2))] Linear ''number'' 0
      = Some (call_stop [constantThunk (Num (Fin 1)), constantThunk (Num (Fin 2))] 0 0)"
    using evaluateCurve_boundary [THEN conjunct1, of "[Fin 0, Fin 10]" "Fin (- 3)"] h(1)
    by simp
  moreover have "evaluateCurve sample_ext (Fin 12) [Fin 0, Fin 10]
        [constantThunk (Num (Fin 1)), constantThunk (Num (Fin 2))] Linear ''number'' 0
      = Some (call_stop [constantThunk (Num (Fin 1)), constantThunk (Num (Fin 2))]
                (int (length [Fin 0, Fin 10]) - 1) 0)"
    using evaluateCurve_boundary [THEN conjunct2, THEN conjunct2, THEN conjunct1,
        of "[Fin 0, Fin 10]" "Fin 12"] h(2,4)
    by simp
  ultimately show ?thesis using h by (simp add: call_stop_def constantThunk_def)
qed

text \<open>
  The blend of two Array values is wrapped with the \<^verbatim>\<open>type\<close> field of the lower one,
  which is \<^verbatim>\<open>Array\<close> whatever its \<^verbatim>\<open>arrayType\<close>.
\<close>

lemma evaluateCurve_blend_array_type:
  assumes "interpolate x ''array'' = Some f" and "f lowerItems upperItems t = Inr items"
  shows "evaluateCurve_blend x ''array'' (array x (Str (''Array'' @ rest)) lowerItems)
           (array x upperType upperItems) t
     = Inr (Obj [(''type'', Str ''Array''), (''arrayType'', Str ''Array''), (''items'', items)])"
  using assms by (simp add: evaluateCurve_blend_def array_def get_prop_def Let_def)

text \<open>
  C4. Between two stops, with the \<^verbatim>\<open>linear\<close> interpolation and the result type
  \<^verbatim>\<open>array\<close>, \<^verbatim>\<open>evaluateCurve\<close> returns an Array value whose items are the blend
  of the items of the two bracketing outputs. Its element type is not that of the
  lower output: for two outputs of type \<^verbatim>\<open>Array<number>\<close> the result has the
  \<^verbatim>\<open>arrayType\<close> \<^verbatim>\<open>Array\<close>, which is the \<^verbatim>\<open>type\<close> field of the lower output.
\<close>

theorem evaluateCurve_array_loses_element_type:
  "evaluateCurve sample_ext (Fin 5) [Fin 0, Fin 10]
     [constantThunk (array sample_ext (Str ''Array<number>'') (Arr [Num (Fin 1), Num (Fin 2)])),
      constantThunk (array sample_ext (Str ''Array<number>'') (Arr [Num (Fin 3), Num (Fin 4)]))]
     Linear ''array'' 0
   = Some (Inr (Obj [(''type'', Str ''Array''), (''arrayType'', Str ''Array''),
                     (''items'', Arr [Num (Fin 2), Num (Fin 3)])]), 2)
   \<and> typeOf (array sample_ext (Str ''Array<number>'') (Arr [Num (Fin 1), Num (Fin 2)]))
       = Str ''Array<number>''
   \<and> typeOf (Obj [(''type'', Str ''Array''), (''arrayType'', Str ''Array''),
                  (''items'', Arr [Num (Fin 2), Num (Fin 3)])])
       = Str ''Array''"
  by (simp add: evaluateCurve_def as_Number findStop_two stop_at_def und_def num_le_def
        num_ge_def call_stop_def constantThunk_def evaluateCurve_blend_def get_prop_def
        array_def sample_ext_def spec_interpolationFactor_def spec_interpolate_def
        spec_blend_items_def spec_blend_def typeOf_def)

section \<open>The function builder\<close>

text \<open>
  C5. When the compiler rejects the expression built from the input,
  \<^verbatim>\<open>createFunction\<close> throws one \<^verbatim>\<open>Error\<close>; its message is every reported pair,
  rendered as \<^verbatim>\<open>key: error\<close>, joined by \<^verbatim>\<open>', '\<close>. No function is returned.
\<close>

theorem createFunction_compile_error:
  assumes "createFunction_expr d parameters propertySpec = Inr expr"
    and "getExpectedType propertySpec = Inr expectedType"
    and "compileExpression d expr expectedType = Failure errors"
  shows "fst (createFunction d parameters propertySpec)
           = Inl (Error (join '', '' (map render_error errors)))"
proof -
  have "(\<lambda>(key, err). key @ '': '' @ err) = render_error"
    by (auto simp: render_error_def fun_eq_iff)
  then show ?thesis using assms by (simp add: createFunction_def)
qed

theorem createFunction_compile_error_witness:
  "createFunction_expr rejecting_deps (Str ''red'') (Obj [(''type'', Str ''number'')])
     = Inr (Arr [Str ''literal'', Str ''red''])
   \<and> getExpectedType (Obj [(''type'', Str ''number'')]) = Inr (Some NumberType)
   \<and> compileExpression rejecting_deps (Arr [Str ''literal'', Str ''red'']) (Some NumberType)
       = Failure [('''', ''Expected number but found string.''), (''[1]'', ''Unknown expression.'')]
   \<and> fst (createFunction rejecting_deps (Str ''red'') (Obj [(''type'', Str ''number'')]))
       = Inl (Error '': Expected number but found string., [1]: Unknown expression.'')"
proof -
  have h: "createFunction_expr rejecting_deps (Str ''red'') (Obj [(''type'', Str ''number'')])
     = Inr (Arr [Str ''literal'', Str ''red''])"
    "getExpectedType (Obj [(''type'', Str ''number'')]) = Inr (Some NumberType)"
    "compileExpression rejecting_deps (Arr [Str ''literal'', Str ''red'']) (Some NumberType)
       = Failure [('''', ''Expected number but found string.''), (''[1]'', ''Unknown expression.'')]"
    by (simp_all add: rejecting_deps_def createFunction_expr_def isFunctionDefinition_def
          getExpectedType_def get_prop_def types_def)
  from createFunction_compile_error [OF h] h show ?thesis
    by (simp add: render_error_def)
qed


end
